theory Spec2Isabelle
  imports Complex_Main "HOL-Library.AList"
begin

section \<open>Data preparation for gravitational-wave inference\<close>

text \<open>
  A shallow embedding of \<^verbatim>\<open>dingo/gw/inference/data_preparation.py\<close>.
  Python floats are modelled by the reals: rounding, infinities and NaN are outside the
  model, except for the sky position, which is also given with the rounding of double
  precision written out. Collaborators from other packages (astropy, gwpy, pycbc) are
  parameters of the functions that call them.
\<close>

subsection \<open>Sky position correction\<close>

text \<open>
  Python's \<^verbatim>\<open>x % m\<close> on floats takes the sign of the divisor:
  in exact arithmetic it is \<^verbatim>\<open>x - m * floor(x / m)\<close>. The only divisor in
  the source is \<^verbatim>\<open>2 * np.pi\<close>, which is not zero, so the division-by-zero
  branch of \<^verbatim>\<open>%\<close> is never taken there. The operator as doubles compute
  it, with its rounding, is \<open>py_mod_double\<close> below.
\<close>

definition py_mod :: "real \<Rightarrow> real \<Rightarrow> real" where
  "py_mod x m = x - m * of_int \<lfloor>x / m\<rfloor>"

text \<open>
  \<^verbatim>\<open>astropy.time.Time(t, format='gps', scale='utc')\<close>: the object keeps the
  value it was built from, with its format and scale.
\<close>

record Time =
  val :: real
  format :: string
  scale :: string

text \<open>
  \<^verbatim>\<open>Time.sidereal_time(kind, longitude)\<close> belongs to astropy; it is the
  parameter \<open>sidereal_time\<close>, giving the angle in radians. The difference of two
  longitudes is a plain angle (not wrapped), and \<^verbatim>\<open>.rad\<close> reads it in
  radians.
\<close>

type_synonym sidereal = "Time \<Rightarrow> string \<Rightarrow> string \<Rightarrow> real"


text \<open>The default of the parameter \<^verbatim>\<open>t_ref\<close>.\<close>

definition t_ref_default :: real where
  "t_ref_default = 1126259462.391"

text \<open>The apparent Greenwich sidereal time at a GPS time, as the source asks for it.\<close>

definition apparent_greenwich :: "sidereal \<Rightarrow> real \<Rightarrow> real" where
  "apparent_greenwich sidereal_time t =
     sidereal_time \<lparr>val = t, format = ''gps'', scale = ''utc''\<rparr> ''apparent'' ''greenwich''"

subsection \<open>Sky position correction in double precision\<close>

text \<open>
  A finite double is a real number with a significand of 53 bits. The constant
  \<^verbatim>\<open>np.pi\<close> is the double \<^verbatim>\<open>0x1.921fb54442d18p+1\<close>, and
  \<^verbatim>\<open>2 * np.pi\<close> doubles it exactly. Results beyond the largest double
  \<open>max_double\<close> (Python's \<^verbatim>\<open>inf\<close>) and NaN are outside the model: a
  result is \<open>finite_double\<close> when the operation does not overflow.
\<close>

definition pi_double :: real where
  "pi_double = 884279719003555 / 2 ^ 48"

definition two_pi_double :: real where
  "two_pi_double = 2 * pi_double"

definition max_double :: real where
  "max_double = (2 ^ 53 - 1) * 2 ^ 971"

definition finite_double :: "real \<Rightarrow> bool" where
  "finite_double x = (\<bar>x\<bar> \<le> max_double)"

text \<open>
  Rounding to the nearest double, ties to the even significand: the spacing of the
  doubles around \<open>x\<close> is two to the power of the exponent of \<open>x\<close> minus 52.
  The exponent is not bounded below, so below the normal range the model rounds on a
  finer spacing than the subnormal doubles have.
\<close>

definition round_half_even :: "real \<Rightarrow> int" where
  "round_half_even y =
     (let n = \<lfloor>y\<rfloor>; f = y - of_int n
      in if f < 1 / 2 then n
         else if 1 / 2 < f then n + 1
         else if even n then n else n + 1)"

definition ulp_exponent :: "real \<Rightarrow> int" where
  "ulp_exponent x = \<lfloor>log 2 \<bar>x\<bar>\<rfloor> - 52"

definition round_double :: "real \<Rightarrow> real" where
  "round_double x =
     (if x = 0 then 0
      else of_int (round_half_even (x / 2 powi ulp_exponent x)) * 2 powi ulp_exponent x)"

text \<open>
  C's \<^verbatim>\<open>fmod\<close>: the remainder of the division truncated towards zero. It
  has the sign of the dividend and is computed without rounding.
\<close>

definition trunc_towards_zero :: "real \<Rightarrow> int" where
  "trunc_towards_zero y = (if 0 \<le> y then \<lfloor>y\<rfloor> else \<lceil>y\<rceil>)"

definition fmod :: "real \<Rightarrow> real \<Rightarrow> real" where
  "fmod x m = x - m * of_int (trunc_towards_zero (x / m))"

text \<open>
  The remainder operator of floats, in CPython and in numpy:
  \<^verbatim>\<open>mod = fmod(x, m); if mod: if (m < 0) != (mod < 0): mod += m\<close>, where the
  addition is an addition of doubles and rounds.
\<close>

definition py_mod_double :: "real \<Rightarrow> real \<Rightarrow> real" where
  "py_mod_double x m =
     (let r = fmod x m
      in if r \<noteq> 0 then (if (m < 0) \<noteq> (r < 0) then round_double (r + m) else r)
         else 0)"

text \<open>
  The function with every arithmetic operation in double precision: the difference of
  the two sidereal times, the sum with the right ascension, and the remainder.
\<close>

definition get_corrected_sky_position_double ::
  "sidereal \<Rightarrow> real \<Rightarrow> real \<Rightarrow> real \<Rightarrow> real" where
  "get_corrected_sky_position_double sidereal_time ra t_event t_ref =
     (let time_reference = \<lparr>val = t_ref, format = ''gps'', scale = ''utc''\<rparr>;
          time_event = \<lparr>val = t_event, format = ''gps'', scale = ''utc''\<rparr>;
          longitude_event = sidereal_time time_event ''apparent'' ''greenwich'';
          longitude_reference = sidereal_time time_reference ''apparent'' ''greenwich'';
          delta_longitude = round_double (longitude_event - longitude_reference);
          ra_correction = delta_longitude;
          ra_corr = py_mod_double (round_double (ra + ra_correction)) two_pi_double
      in ra_corr)"

subsection \<open>Python values and exceptions\<close>

text \<open>
  The model metadata and the settings are nested Python dictionaries read from
  configuration: strings, numbers, lists and dictionaries. A dictionary is an association
  list in insertion order.
\<close>

datatype pyval =
    PNone
  | PStr string
  | PNum real
  | PList "pyval list"
  | PDict "(string \<times> pyval) list"

text \<open>
  A class object is identified by its name; \<open>FrequencyDomain\<close> is the class imported
  from \<^verbatim>\<open>dingo.gw.domains\<close>.
\<close>

type_synonym pyclass = string

definition FrequencyDomain :: pyclass where
  "FrequencyDomain = ''FrequencyDomain''"

text \<open>
  The object interpolated into an f-string: a value or a class. Its rendering by
  \<^verbatim>\<open>str\<close> is Python's and is kept symbolic.
\<close>

datatype fmt_arg = FmtValue pyval | FmtType pyclass

text \<open>
  The exceptions of the module: \<open>NotImplementedError\<close> carries the text of its message
  and the object interpolated after it; \<open>DownloadError\<close> stands for whatever the
  download collaborator raises.
\<close>

datatype error =
    KeyError string
  | TypeError
  | ZeroDivisionError
  | NotImplementedError string fmt_arg
  | DownloadError string

definition bind_err :: "error + 'a \<Rightarrow> ('a \<Rightarrow> error + 'b) \<Rightarrow> error + 'b" where
  "bind_err r f = (case r of Inl e \<Rightarrow> Inl e | Inr v \<Rightarrow> f v)"

text \<open>
  \<^verbatim>\<open>obj[key]\<close> with a string key: a dictionary raises \<open>KeyError\<close> for a missing
  key, every other value raises \<open>TypeError\<close>.
\<close>

fun getitem :: "pyval \<Rightarrow> string \<Rightarrow> error + pyval" where
  "getitem (PDict kvs) k = (case map_of kvs k of None \<Rightarrow> Inl (KeyError k) | Some v \<Rightarrow> Inr v)"
| "getitem PNone k = Inl TypeError"
| "getitem (PStr s) k = Inl TypeError"
| "getitem (PNum x) k = Inl TypeError"
| "getitem (PList xs) k = Inl TypeError"

text \<open>\<^verbatim>\<open>1 / x\<close>: true division of the integer one by a configuration value.\<close>

fun py_recip :: "pyval \<Rightarrow> error + real" where
  "py_recip (PNum x) = (if x = 0 then Inl ZeroDivisionError else Inr (1 / x))"
| "py_recip PNone = Inl TypeError"
| "py_recip (PStr s) = Inl TypeError"
| "py_recip (PList xs) = Inl TypeError"
| "py_recip (PDict kvs) = Inl TypeError"

subsection \<open>Settings parser\<close>

text \<open>
  \<^verbatim>\<open>model_metadata["dataset_settings"]["domain"]["type"]\<close>, the first statement
  of the parser.
\<close>

definition domain_kind :: "pyval \<Rightarrow> error + pyval" where
  "domain_kind model_metadata =
     bind_err (getitem model_metadata ''dataset_settings'') (\<lambda>dataset_settings.
     bind_err (getitem dataset_settings ''domain'') (\<lambda>domain.
     getitem domain ''type''))"

text \<open>\<^verbatim>\<open>model_metadata["train_settings"]["data"]\<close>.\<close>

definition training_data :: "pyval \<Rightarrow> error + pyval" where
  "training_data model_metadata =
     bind_err (getitem model_metadata ''train_settings'') (\<lambda>train_settings.
     getitem train_settings ''data'')"

text \<open>
  The dictionary display is evaluated entry by entry, in the order written: the window,
  the detectors, the window's \<open>T\<close>, and the window's \<open>f_s\<close>.
\<close>

definition parse_settings_for_raw_data :: "pyval \<Rightarrow> pyval \<Rightarrow> pyval \<Rightarrow> error + pyval" where
  "parse_settings_for_raw_data model_metadata time_psd time_buffer =
     bind_err (domain_kind model_metadata) (\<lambda>domain_type.
     if domain_type = PStr ''FrequencyDomain'' then
       bind_err (training_data model_metadata) (\<lambda>data_settings.
       bind_err (getitem data_settings ''window'') (\<lambda>window.
       bind_err (getitem data_settings ''detectors'') (\<lambda>detectors.
       bind_err (bind_err (getitem data_settings ''window'') (\<lambda>w. getitem w ''T''))
         (\<lambda>time_segment.
       bind_err (bind_err (getitem data_settings ''window'') (\<lambda>w. getitem w ''f_s''))
         (\<lambda>f_s.
       Inr (PDict
         [(''window'', window),
          (''detectors'', detectors),
          (''time_segment'', time_segment),
          (''time_psd'', time_psd),
          (''time_buffer'', time_buffer),
          (''f_s'', f_s)]))))))
     else Inl (NotImplementedError ''Unknown domain type '' (FmtValue domain_type)))"

subsection \<open>Raw data loader\<close>

text \<open>
  Raw event data: the two sections \<open>strain\<close> and \<open>psd\<close>, each a dictionary from
  detector name to an array of samples.
\<close>

record raw_data =
  strain :: "(string \<times> real list) list"
  psd :: "(string \<times> real list) list"

text \<open>
  The \<^verbatim>\<open>DingoDataset\<close> built before saving:
  \<^verbatim>\<open>dictionary={event: data, "settings": settings}, data_keys=[event]\<close>.
\<close>

record dingo_dataset =
  ds_event :: string
  ds_data :: raw_data
  ds_settings :: pyval
  ds_data_keys :: "string list"

text \<open>
  What the loader can change: the files (of a type \<open>'fs\<close> left to the storage
  collaborators), the calls made to the download collaborator, and the lines printed.
\<close>

record 'fs world =
  files :: 'fs
  downloads :: "(real \<times> pyval) list"
  stdout :: "string list"

text \<open>
  The collaborators of the loader: \<^verbatim>\<open>str\<close> on the event time,
  \<^verbatim>\<open>load_data_from_file\<close> (which only reads, and returns \<open>None\<close> for
  Python's \<^verbatim>\<open>None\<close>), \<^verbatim>\<open>download_raw_data\<close> (which may raise), and
  \<^verbatim>\<open>DingoDataset.to_file\<close> with its mode.
\<close>

record 'fs collaborators =
  str_float :: "real \<Rightarrow> string"
  load_data_from_file :: "'fs \<Rightarrow> string \<Rightarrow> string \<Rightarrow> pyval \<Rightarrow> raw_data option"
  download_raw_data :: "real \<Rightarrow> pyval \<Rightarrow> error + raw_data"
  to_file :: "'fs \<Rightarrow> dingo_dataset \<Rightarrow> string \<Rightarrow> string \<Rightarrow> 'fs"

definition print :: "string \<Rightarrow> 'fs world \<Rightarrow> 'fs world" where
  "print line w = w\<lparr>stdout := stdout w @ [line]\<rparr>"

text \<open>The part of the loader after the cache lookup: download, and save when asked.\<close>

definition download_and_save ::
  "'fs collaborators \<Rightarrow> real \<Rightarrow> pyval \<Rightarrow> string option \<Rightarrow> 'fs world
    \<Rightarrow> (error + raw_data) \<times> 'fs world" where
  "download_and_save c time_event settings event_dataset w =
     (let event = str_float c time_event;
          w1 = print (''Downloading data for event at '' @ event @ ''.'') w;
          w2 = w1\<lparr>downloads := downloads w1 @ [(time_event, settings)]\<rparr>
      in case download_raw_data c time_event settings of
           Inl e \<Rightarrow> (Inl e, w2)
         | Inr data \<Rightarrow>
             (case event_dataset of
                None \<Rightarrow> (Inr data, w2)
              | Some file \<Rightarrow>
                  (let dataset = \<lparr>ds_event = event, ds_data = data, ds_settings = settings,
                                  ds_data_keys = [event]\<rparr>;
                       w3 = print (''Saving data for event at '' @ event @ '' to '' @ file @ ''.'') w2;
                       w4 = w3\<lparr>files := to_file c (files w3) dataset file ''a''\<rparr>
                   in (Inr data, w4))))"

definition load_raw_data ::
  "'fs collaborators \<Rightarrow> real \<Rightarrow> pyval \<Rightarrow> string option \<Rightarrow> 'fs world
    \<Rightarrow> (error + raw_data) \<times> 'fs world" where
  "load_raw_data c time_event settings event_dataset w =
     (let event = str_float c time_event
      in case event_dataset of
           None \<Rightarrow> download_and_save c time_event settings event_dataset w
         | Some file \<Rightarrow>
             (case load_data_from_file c (files w) file event settings of
                Some data \<Rightarrow>
                  (Inr data,
                   print (''Data for event at '' @ event @ '' found in '' @ file @ ''.'') w)
              | None \<Rightarrow> download_and_save c time_event settings event_dataset w))"

subsection \<open>Domain converter\<close>

text \<open>
  A numpy array of floats or of complex numbers. The domain object is seen through its
  class, the classes it inherits from (\<^verbatim>\<open>type(domain).__mro__\<close>, its own class
  first) and its method \<^verbatim>\<open>update_data(data, low_value=...)\<close>, where \<open>None\<close>
  stands for a call that leaves \<^verbatim>\<open>low_value\<close> to the method's default.
\<close>

datatype ndarray = RealArray "real list" | ComplexArray "complex list"

record domain_object =
  cls :: pyclass
  mro :: "pyclass list"
  update_data :: "ndarray \<Rightarrow> real option \<Rightarrow> ndarray"

definition isinstance :: "domain_object \<Rightarrow> pyclass \<Rightarrow> bool" where
  "isinstance obj c = (c \<in> set (mro obj))"

text \<open>Time series and frequency series of gwpy and pycbc: the samples and their spacing.\<close>

record timeseries =
  samples :: "real list"
  dt :: real

record frequencyseries =
  bins :: "complex list"
  delta_f :: real

text \<open>
  The collaborators of the converter: \<^verbatim>\<open>get_window\<close>, the conversion of a gwpy
  series to pycbc, the product of a series with the window, the Fourier transform, the
  cyclic time shift, and the factory \<^verbatim>\<open>build_domain_from_model_metadata\<close>.
\<close>

record externals =
  get_window :: "pyval \<Rightarrow> real list"
  to_pycbc :: "timeseries \<Rightarrow> timeseries"
  times_window :: "timeseries \<Rightarrow> real list \<Rightarrow> timeseries"
  to_frequencyseries :: "timeseries \<Rightarrow> frequencyseries"
  cyclic_time_shift :: "frequencyseries \<Rightarrow> pyval \<Rightarrow> frequencyseries"
  build_domain_from_model_metadata :: "pyval \<Rightarrow> domain_object"

text \<open>\<^verbatim>\<open>d[key] = value\<close> on a dictionary kept as an association list.\<close>

definition setitem :: "(string \<times> 'v) list \<Rightarrow> string \<Rightarrow> 'v \<Rightarrow> (string \<times> 'v) list" where
  "setitem d k v = AList.update k v d"

text \<open>The body of the first loop, for one detector.\<close>

definition strain_to_domain ::
  "externals \<Rightarrow> pyval \<Rightarrow> domain_object \<Rightarrow> real list \<Rightarrow> real list \<Rightarrow> error + ndarray" where
  "strain_to_domain ext settings_raw_data domain window event_strain =
     bind_err (bind_err (getitem settings_raw_data ''f_s'') py_recip) (\<lambda>step.
     let s1 = \<lparr>samples = event_strain, dt = step\<rparr>;
         s2 = to_pycbc ext s1;
         s3 = to_frequencyseries ext (times_window ext s2 window)
     in bind_err (getitem settings_raw_data ''time_buffer'') (\<lambda>time_buffer.
        let s4 = cyclic_time_shift ext s3 time_buffer
        in Inr (update_data domain (ComplexArray (bins s4)) None)))"

text \<open>The first loop: the event strains, detector by detector, into the waveform section.\<close>

fun convert_strains ::
  "externals \<Rightarrow> pyval \<Rightarrow> domain_object \<Rightarrow> real list \<Rightarrow> (string \<times> real list) list
    \<Rightarrow> (string \<times> ndarray) list \<Rightarrow> error + (string \<times> ndarray) list" where
  "convert_strains ext settings_raw_data domain window [] acc = Inr acc"
| "convert_strains ext settings_raw_data domain window ((det, event_strain) # rest) acc =
     (case strain_to_domain ext settings_raw_data domain window event_strain of
        Inl e \<Rightarrow> Inl e
      | Inr a \<Rightarrow>
          convert_strains ext settings_raw_data domain window rest (setitem acc det a))"

text \<open>
  The second loop: \<^verbatim>\<open>asd = psd ** 0.5\<close>, the square root of every entry (numpy
  gives NaN for a negative entry, which the reals do not have), then
  \<^verbatim>\<open>domain.update_data(asd, low_value=1.0)\<close>.
\<close>

definition psd_to_asd :: "domain_object \<Rightarrow> real list \<Rightarrow> ndarray" where
  "psd_to_asd domain p =
     (let asd = RealArray (map sqrt p)
      in update_data domain asd (Some 1.0))"

fun convert_psds ::
  "domain_object \<Rightarrow> (string \<times> real list) list \<Rightarrow> (string \<times> ndarray) list
    \<Rightarrow> (string \<times> ndarray) list" where
  "convert_psds domain [] acc = acc"
| "convert_psds domain ((det, p) # rest) acc =
     convert_psds domain rest (setitem acc det (psd_to_asd domain p))"

record domain_data =
  waveform :: "(string \<times> ndarray) list"
  asds :: "(string \<times> ndarray) list"

definition data_to_domain ::
  "externals \<Rightarrow> raw_data \<Rightarrow> pyval \<Rightarrow> domain_object \<Rightarrow> (string \<times> pyval) list
    \<Rightarrow> error + domain_data" where
  "data_to_domain ext raw settings_raw_data domain kwargs =
     (if cls domain = FrequencyDomain then
        bind_err (getitem (PDict kwargs) ''window'') (\<lambda>spec.
        let window = get_window ext spec
        in bind_err (convert_strains ext settings_raw_data domain window (strain raw) [])
             (\<lambda>wf. Inr \<lparr>waveform = wf, asds = convert_psds domain (psd raw) []\<rparr>))
      else Inl (NotImplementedError ''Unknown domain type '' (FmtType (cls domain))))"

subsection \<open>Orchestrator\<close>

text \<open>
  The arguments of the call to the converter are evaluated left to right: the domain
  object is built before the window is read from the metadata.
\<close>

definition get_domain_data ::
  "'fs collaborators \<Rightarrow> externals \<Rightarrow> pyval \<Rightarrow> real \<Rightarrow> pyval \<Rightarrow> pyval \<Rightarrow> string option
    \<Rightarrow> 'fs world \<Rightarrow> (error + domain_data) \<times> 'fs world" where
  "get_domain_data c ext model_metadata time_event time_psd time_buffer event_dataset w =
     (case parse_settings_for_raw_data model_metadata time_psd time_buffer of
        Inl e \<Rightarrow> (Inl e, w)
      | Inr settings_raw_data \<Rightarrow>
          (case load_raw_data c time_event settings_raw_data event_dataset w of
             (Inl e, w1) \<Rightarrow> (Inl e, w1)
           | (Inr raw, w1) \<Rightarrow>
               (let domain = build_domain_from_model_metadata ext model_metadata
                in (bind_err (bind_err (training_data model_metadata)
                                (\<lambda>data_settings. getitem data_settings ''window''))
                      (\<lambda>window.
                         data_to_domain ext raw settings_raw_data domain
                           [(''window'', window)]),
                    w1))))"

subsection \<open>The domain object and the cache of the specification\<close>

text \<open>
  Modelled from the spec: the method \<^verbatim>\<open>update_data\<close> of the frequency domain
  (module \<^verbatim>\<open>dingo.gw.domains\<close>). The specification says it reformats an array
  into the domain's native layout, truncating or padding the frequency bins to the
  domain's declared bin count, and that with a minimum it applies a floor clamp: values
  below the minimum are replaced by the minimum. Padding bins are zero.
\<close>

definition native_layout :: "nat \<Rightarrow> 'a::zero list \<Rightarrow> 'a list" where
  "native_layout n xs = take n xs @ replicate (n - length xs) 0"

definition floor_clamp :: "real \<Rightarrow> real \<Rightarrow> real" where
  "floor_clamp low x = (if x < low then low else x)"

fun update_data_spec :: "nat \<Rightarrow> ndarray \<Rightarrow> real option \<Rightarrow> ndarray" where
  "update_data_spec n (RealArray xs) None = RealArray (native_layout n xs)"
| "update_data_spec n (RealArray xs) (Some low) =
     RealArray (map (floor_clamp low) (native_layout n xs))"
| "update_data_spec n (ComplexArray zs) low = ComplexArray (native_layout n zs)"

definition frequency_domain_object :: "nat \<Rightarrow> domain_object" where
  "frequency_domain_object n =
     \<lparr>cls = FrequencyDomain, mro = [FrequencyDomain, ''Domain'', ''object''],
      update_data = update_data_spec n\<rparr>"

text \<open>
  Modelled from the spec: the cached dataset (\<^verbatim>\<open>DingoDataset.to_file\<close> of
  \<^verbatim>\<open>dingo.core.dataset\<close> and \<^verbatim>\<open>load_data_from_file\<close> of
  \<^verbatim>\<open>dingo.core.utils\<close>). The specification says it is an append-only keyed store:
  each key is an event identifier and the value is the raw event data with a snapshot of
  the settings; a lookup is by event identifier and validates the stored settings
  against the requested ones; a write appends and never rewrites an entry.
\<close>

record cache_entry =
  entry_key :: string
  entry_data :: raw_data
  entry_settings :: pyval

type_synonym cache_files = "string \<Rightarrow> cache_entry list option"

definition entry_matches :: "string \<Rightarrow> pyval \<Rightarrow> cache_entry \<Rightarrow> bool" where
  "entry_matches key settings e = (entry_key e = key \<and> entry_settings e = settings)"

definition load_data_from_file_spec ::
  "cache_files \<Rightarrow> string \<Rightarrow> string \<Rightarrow> pyval \<Rightarrow> raw_data option" where
  "load_data_from_file_spec fs file key settings =
     (case fs file of
        None \<Rightarrow> None
      | Some entries \<Rightarrow> map_option entry_data (find (entry_matches key settings) entries))"

definition to_file_spec :: "cache_files \<Rightarrow> dingo_dataset \<Rightarrow> string \<Rightarrow> string \<Rightarrow> cache_files" where
  "to_file_spec fs dataset file mode =
     (let old = (case fs file of None \<Rightarrow> [] | Some entries \<Rightarrow> entries);
          new = \<lparr>entry_key = ds_event dataset, entry_data = ds_data dataset,
                 entry_settings = ds_settings dataset\<rparr>
      in fs(file \<mapsto> old @ [new]))"

definition cache_collaborators ::
  "(real \<Rightarrow> string) \<Rightarrow> (real \<Rightarrow> pyval \<Rightarrow> error + raw_data) \<Rightarrow> cache_files collaborators" where
  "cache_collaborators str download =
     \<lparr>str_float = str, load_data_from_file = load_data_from_file_spec,
      download_raw_data = download, to_file = to_file_spec\<rparr>"

subsection \<open>Example inputs\<close>

text \<open>
  Concrete inputs on which the theorems below are run: metadata of a given domain kind,
  stand-ins for the collaborators, raw data for one detector, a cache with and without
  the event, a domain object of a given class below the frequency domain, and a domain
  object whose method returns the \<^verbatim>\<open>low_value\<close> it was called with.
\<close>

definition example_metadata :: "string \<Rightarrow> pyval" where
  "example_metadata kind =
     PDict
       [(''dataset_settings'', PDict [(''domain'', PDict [(''type'', PStr kind)])]),
        (''train_settings'',
           PDict [(''data'',
             PDict [(''window'', PDict [(''type'', PStr ''tukey''), (''T'', PNum 4), (''f_s'', PNum 4096)]),
                    (''detectors'', PList [PStr ''H1'', PStr ''L1''])])])]"

definition example_externals :: externals where
  "example_externals =
     \<lparr>get_window = (\<lambda>spec. [1, 1]),
      to_pycbc = (\<lambda>s. s),
      times_window = (\<lambda>s w. s\<lparr>samples := map2 (*) (samples s) w\<rparr>),
      to_frequencyseries = (\<lambda>s. \<lparr>bins = map complex_of_real (samples s), delta_f = 1\<rparr>),
      cyclic_time_shift = (\<lambda>s t. s),
      build_domain_from_model_metadata = (\<lambda>m. frequency_domain_object 2)\<rparr>"

definition example_raw_data :: raw_data where
  "example_raw_data = \<lparr>strain = [(''H1'', [3, 5])], psd = [(''H1'', [0, 4])]\<rparr>"

definition example_settings :: pyval where
  "example_settings = PDict [(''f_s'', PNum 4096), (''time_buffer'', PNum 2), (''low_value'', PNum 7)]"

definition example_collaborators :: "cache_files collaborators" where
  "example_collaborators =
     cache_collaborators (\<lambda>t. ''1126259462.4'') (\<lambda>t settings. Inr example_raw_data)"

definition example_world :: "cache_files world" where
  "example_world = \<lparr>files = (\<lambda>file. None), downloads = [], stdout = []\<rparr>"

definition example_cached_world :: "cache_files world" where
  "example_cached_world =
     \<lparr>files = (\<lambda>file. None)(''events.hdf5'' \<mapsto>
        [\<lparr>entry_key = ''1126259462.4'', entry_data = example_raw_data,
          entry_settings = example_settings\<rparr>]),
      downloads = [], stdout = []\<rparr>"

definition example_domain :: "pyclass \<Rightarrow> domain_object" where
  "example_domain c =
     \<lparr>cls = c, mro = [c, FrequencyDomain, ''Domain'', ''object''],
      update_data = update_data_spec 2\<rparr>"

definition recording_domain :: domain_object where
  "recording_domain =
     \<lparr>cls = FrequencyDomain, mro = [FrequencyDomain, ''Domain'', ''object''],
      update_data = (\<lambda>data low_value. RealArray (case low_value of None \<Rightarrow> [] | Some low \<Rightarrow> [low]))\<rparr>"

definition example_sidereal :: sidereal where
  "example_sidereal time kind location = 1"

section \<open>Properties\<close>

subsection \<open>Modulo on the reals\<close>

lemma py_mod_nonneg:
  assumes "0 < m"
  shows "0 \<le> py_mod x m"
proof -
  have "of_int \<lfloor>x / m\<rfloor> \<le> x / m" by (rule of_int_floor_le)
  then have "m * of_int \<lfloor>x / m\<rfloor> \<le> m * (x / m)"
    using assms by (simp only: mult_le_cancel_left_pos)
  also have "m * (x / m) = x" using assms by simp
  finally show ?thesis by (simp add: py_mod_def)
qed

lemma py_mod_less:
  assumes "0 < m"
  shows "py_mod x m < m"
proof -
  have "x / m < of_int \<lfloor>x / m\<rfloor> + 1" by linarith
  then have "m * (x / m) < m * (of_int \<lfloor>x / m\<rfloor> + 1)"
    using assms by (simp only: mult_less_cancel_left_pos)
  moreover have "m * (x / m) = x" using assms by simp
  ultimately have "x < m * of_int \<lfloor>x / m\<rfloor> + m" by (simp add: algebra_simps)
  then show ?thesis by (simp add: py_mod_def)
qed


subsection \<open>Claims on the sky position\<close>



subsection \<open>The range of the sky position in double precision\<close>

text \<open>
  Rounding of integers and the exponent of a double.
\<close>

lemma round_half_even_le: "z \<le> of_int k \<Longrightarrow> round_half_even z \<le> k"
proof -
  assume z: "z \<le> of_int k"
  have fl: "\<lfloor>z\<rfloor> \<le> k" using z by (simp add: floor_le_iff) 
  show ?thesis
  proof (cases "\<lfloor>z\<rfloor> = k")
    case True
    then have "z = of_int k" using z by linarith
    then show ?thesis by (simp add: round_half_even_def)
  next
    case False
    with fl have "\<lfloor>z\<rfloor> + 1 \<le> k" by simp
    then show ?thesis by (simp add: round_half_even_def Let_def)
  qed
qed

lemma round_half_even_nonneg: "0 \<le> z \<Longrightarrow> 0 \<le> round_half_even z"
  by (simp add: round_half_even_def Let_def)

lemma round_half_even_of_int: "round_half_even (of_int k) = k"
  by (simp add: round_half_even_def)

lemma round_half_even_near_above:
  assumes "of_int n - 1 / 2 < z" and "z \<le> of_int n"
  shows "round_half_even z = n"
proof (cases "z = of_int n")
  case True
  then show ?thesis by (simp add: round_half_even_of_int)
next
  case False
  with assms have fl: "\<lfloor>z\<rfloor> = n - 1" by (simp add: floor_eq_iff)
  have "1 / 2 < z - of_int (n - 1)" using assms(1) by simp
  then show ?thesis by (simp add: round_half_even_def fl)
qed

lemma two_powr_of_int: "(2::real) powr real_of_int k = 2 powi k"
  by (rule powr_real_of_int') simp_all

lemma floor_log2_eq:
  assumes "2 powi k \<le> y" and "y < 2 powi (k + 1)"
  shows "\<lfloor>log 2 y\<rfloor> = k"
proof -
  have "0 < (2::real) powi k" by simp
  with assms(1) have pos: "0 < y" by linarith
  have "(\<lfloor>log 2 y\<rfloor> = k) = (2 powi k \<le> y \<and> y < 2 powi (k + 1))"
    unfolding two_powr_of_int [symmetric] by (rule floor_log_eq_powr_iff [OF pos]) simp
  with assms show ?thesis by simp
qed

lemma floor_log2_le:
  assumes "0 < y" and "y < 2 powi (k + 1)"
  shows "\<lfloor>log 2 y\<rfloor> \<le> k"
proof -
  have "y < 2 powr real_of_int (k + 1)"
    using assms(2) by (simp only: two_powr_of_int)
  then have "log 2 y < real_of_int (k + 1)"
    using log_less_iff [of 2 y "real_of_int (k + 1)"] assms(1) by simp
  then have "\<lfloor>log 2 y\<rfloor> < k + 1" by (simp only: floor_less_iff)
  then show ?thesis by simp
qed

text \<open>
  Rounding a positive number that is at most \<open>2 * np.pi\<close> stays between zero and \<open>2 * np.pi\<close>.
\<close>

lemma two_pi_double_grid: "two_pi_double = of_int 7074237752028440 * 2 powi (- 50)"
  by (simp add: two_pi_double_def pi_double_def)

lemma two_pi_double_bounds: "2 powi 2 \<le> two_pi_double" "two_pi_double < 2 powi 3"
  by (simp_all add: two_pi_double_def pi_double_def)

lemma two_pi_double_pos: "0 < two_pi_double"
  by (simp add: two_pi_double_def pi_double_def)

lemma round_double_nonneg:
  assumes "0 < y"
  shows "0 \<le> round_double y"
proof -
  have "0 \<le> y / 2 powi ulp_exponent y" using assms by simp
  then have "0 \<le> round_half_even (y / 2 powi ulp_exponent y)"
    by (rule round_half_even_nonneg)
  then show ?thesis using assms by (simp add: round_double_def)
qed

lemma round_double_le_two_pi:
  assumes "0 < y" and "y \<le> two_pi_double"
  shows "round_double y \<le> two_pi_double"
proof -
  define e where "e = ulp_exponent y"
  define d where "d = nat (- 50 - e)"
  define K :: int where "K = 7074237752028440 * 2 ^ d"
  have "y < 2 powi (2 + 1)" using assms(2) two_pi_double_bounds(2) by simp
  with assms(1) have "\<lfloor>log 2 y\<rfloor> \<le> 2" by (rule floor_log2_le)
  then have e: "e \<le> - 50" using assms(1) by (simp add: e_def ulp_exponent_def)
  have q: "0 < (2::real) powi e" by simp
  have "(2::real) powi (- 50) = 2 powi (int d + e)" using e by (simp add: d_def)
  also have "\<dots> = 2 powi int d * 2 powi e" by (rule power_int_add) simp
  finally have split: "(2::real) powi (- 50) = 2 ^ d * 2 powi e" by simp
  have grid: "two_pi_double = of_int K * 2 powi e"
    unfolding two_pi_double_grid split by (simp add: K_def)
  have "y / 2 powi e \<le> two_pi_double / 2 powi e"
    using assms(2) by (rule divide_right_mono) simp
  also have "two_pi_double / 2 powi e = of_int K" unfolding grid by simp
  finally have "round_half_even (y / 2 powi e) \<le> K" by (rule round_half_even_le)
  then have "of_int (round_half_even (y / 2 powi e)) * (2::real) powi e \<le> of_int K * 2 powi e"
    using q by (simp only: mult_le_cancel_right_pos of_int_le_iff)
  moreover have "round_double y = of_int (round_half_even (y / 2 powi e)) * 2 powi e"
    using assms(1) by (simp add: round_double_def e_def)
  ultimately show ?thesis by (simp only: grid)
qed

text \<open>
  The remainder of the truncated division has the sign of the dividend.
\<close>

lemma fmod_of_nonneg:
  assumes "0 \<le> x" and "0 < m"
  shows "0 \<le> fmod x m" and "fmod x m < m"
proof -
  have "fmod x m = py_mod x m" using assms by (simp add: fmod_def trunc_towards_zero_def py_mod_def)
  then show "0 \<le> fmod x m" and "fmod x m < m"
    using py_mod_nonneg [OF assms(2)] py_mod_less [OF assms(2)] by simp_all
qed

lemma fmod_of_neg:
  assumes "x < 0" and "0 < m"
  shows "- m < fmod x m" and "fmod x m \<le> 0"
proof -
  have "x / m < 0" using assms by (rule divide_neg_pos)
  then have neg: "\<not> 0 \<le> x / m" by simp
  have eq: "fmod x m = x - m * of_int \<lceil>x / m\<rceil>" using neg by (simp add: fmod_def trunc_towards_zero_def)
  have mx: "m * (x / m) = x" using assms(2) by simp
  have "x / m \<le> of_int \<lceil>x / m\<rceil>" by (rule le_of_int_ceiling)
  then have "m * (x / m) \<le> m * of_int \<lceil>x / m\<rceil>"
    using assms(2) by (simp only: mult_le_cancel_left_pos)
  then have upper: "x \<le> m * of_int \<lceil>x / m\<rceil>" unfolding mx .
  have "of_int \<lceil>x / m\<rceil> - 1 < x / m" by linarith
  then have "m * (of_int \<lceil>x / m\<rceil> - 1) < m * (x / m)"
    using assms(2) by (simp only: mult_less_cancel_left_pos)
  then have lower: "m * (of_int \<lceil>x / m\<rceil> - 1) < x" unfolding mx .
  from upper show "fmod x m \<le> 0" unfolding eq by simp
  from lower show "- m < fmod x m" unfolding eq by (simp add: algebra_simps)
qed

lemma py_mod_double_range:
  "0 \<le> py_mod_double x two_pi_double \<and> py_mod_double x two_pi_double \<le> two_pi_double"
proof -
  let ?m = two_pi_double
  let ?r = "fmod x ?m"
  note m = two_pi_double_pos
  consider (zero) "?r = 0" | (pos) "0 < ?r" | (neg) "?r < 0" by linarith
  then show ?thesis
  proof cases
    case zero
    then show ?thesis using m by (simp add: py_mod_double_def)
  next
    case pos
    then have "0 \<le> x" using fmod_of_neg(2) [of x ?m] m by (cases "x < 0") simp_all
    then have "?r < ?m" using m by (rule fmod_of_nonneg(2))
    with pos m show ?thesis by (simp add: py_mod_double_def)
  next
    case neg
    then have "x < 0" using fmod_of_nonneg(1) [of x ?m] m by (cases "x < 0") simp_all
    then have "- ?m < ?r" using m by (rule fmod_of_neg(1))
    then have "0 < ?r + ?m" and "?r + ?m \<le> ?m" using neg by simp_all
    then have "0 \<le> round_double (?r + ?m)" and "round_double (?r + ?m) \<le> ?m"
      by (simp_all add: round_double_nonneg round_double_le_two_pi)
    with neg m show ?thesis by (simp add: py_mod_double_def)
  qed
qed

text \<open>
  Doubles are fixed by rounding; a remainder smaller than the divisor is the dividend.
\<close>

lemma round_double_grid:
  assumes "2 ^ 52 \<le> \<bar>k\<bar>" and "\<bar>k\<bar> < 2 ^ 53"
  shows "round_double (of_int k * 2 powi e) = of_int k * 2 powi e"
proof -
  let ?x = "real_of_int k * 2 powi e"
  have k0: "k \<noteq> 0" using assms(1) by auto
  then have x0: "?x \<noteq> 0" by simp
  have abs: "\<bar>?x\<bar> = real_of_int \<bar>k\<bar> * 2 powi e" by (simp add: abs_mult)
  have "(2::real) powi (52 + e) = 2 ^ 52 * 2 powi e"
    using power_int_add [of "2::real" 52 e] by simp
  moreover have "(2::real) ^ 52 \<le> real_of_int \<bar>k\<bar>" 
    using assms(1) of_int_le_iff [of "2 ^ 52" "\<bar>k\<bar>", where ?'a = real] by simp
  ultimately have lo: "2 powi (52 + e) \<le> \<bar>?x\<bar>" unfolding abs by simp
  have "(2::real) powi (52 + e + 1) = 2 ^ 53 * 2 powi e"
    using power_int_add [of "2::real" 53 e] by (simp add: add.commute add.left_commute)
  moreover have "real_of_int \<bar>k\<bar> < 2 ^ 53"
    using assms(2) of_int_less_iff [of "\<bar>k\<bar>" "2 ^ 53", where ?'a = real] by simp
  ultimately have hi: "\<bar>?x\<bar> < 2 powi (52 + e + 1)" unfolding abs by simp
  from lo hi have "\<lfloor>log 2 \<bar>?x\<bar>\<rfloor> = 52 + e" by (rule floor_log2_eq)
  then have ue: "ulp_exponent ?x = e" by (simp add: ulp_exponent_def)
  have "?x / 2 powi e = of_int k" by simp
  then have "round_half_even (?x / 2 powi ulp_exponent ?x) = k"
    by (simp only: ue round_half_even_of_int)
  then show ?thesis using x0 by (simp only: round_double_def ue if_False)
qed

lemma fmod_small:
  assumes "\<bar>x\<bar> < m"
  shows "fmod x m = x"
proof -
  have m: "0 < m" using assms by linarith
  show ?thesis
  proof (cases "0 \<le> x")
    case True
    then have "0 \<le> x / m" and "x / m < 1" using assms m by simp_all
    then have "\<lfloor>x / m\<rfloor> = 0" by linarith
    with \<open>0 \<le> x / m\<close> show ?thesis by (simp add: fmod_def trunc_towards_zero_def)
  next
    case False
    then have "x / m < 0" using m by (simp add: divide_neg_pos)
    moreover have "- 1 < x / m" using assms m by (simp add: pos_less_divide_eq)
    ultimately have "\<lceil>x / m\<rceil> = 0" and "\<not> 0 \<le> x / m" by linarith+
    then show ?thesis by (simp add: fmod_def trunc_towards_zero_def)
  qed
qed

lemma round_double_one: "round_double 1 = 1"
  using round_double_grid [of "2 ^ 52" "- 52"] by simp

lemma round_double_tiny: "round_double (- (2 powi (- 70))) = - (2 powi (- 70))"
  using round_double_grid [of "- (2 ^ 52)" "- 122"] by simp

lemma round_double_below_two_pi:
  "round_double (- (2 powi (- 70)) + two_pi_double) = two_pi_double"
proof -
  let ?y = "- (2 powi (- 70)) + two_pi_double"
  have lo: "2 powi 2 \<le> ?y" and hi: "?y < 2 powi (2 + 1)"
    by (simp_all add: two_pi_double_def pi_double_def)
  then have "\<lfloor>log 2 ?y\<rfloor> = 2" by (rule floor_log2_eq)
  moreover have "0 < ?y" by (simp add: two_pi_double_def pi_double_def)
  ultimately have ue: "ulp_exponent ?y = - 50" by (simp add: ulp_exponent_def)
  have "round_half_even (?y / 2 powi (- 50)) = 7074237752028440"
    by (rule round_half_even_near_above) (simp_all add: two_pi_double_def pi_double_def)
  then have "round_double ?y = of_int 7074237752028440 * 2 powi (- 50)"
    using \<open>0 < ?y\<close> by (simp only: round_double_def ue) simp
  then show ?thesis by (simp only: two_pi_double_grid)
qed

lemma example_run:
  "\<bar>ra\<bar> < two_pi_double \<Longrightarrow> round_double ra = ra \<Longrightarrow>
   get_corrected_sky_position_double example_sidereal ra t_ref_default t_ref_default
     = py_mod_double ra two_pi_double"
proof -
  assume fixed: "round_double ra = ra"
  have zero: "round_double 0 = 0" by (simp add: round_double_def)
  show ?thesis
    unfolding get_corrected_sky_position_double_def Let_def example_sidereal_def
    by (simp add: zero fixed)
qed

text \<open>
  C3, as amended. For every right ascension and every pair of GPS times, when no sum
  overflows, the value returned by \<open>get_corrected_sky_position\<close> in double precision
  lies in the closed interval from \<open>0\<close> to the double \<open>2 * np.pi\<close>.
\<close>

theorem C3_corrected_ra_range_closed:
  assumes "finite_double (round_double
             (apparent_greenwich sid t_event - apparent_greenwich sid t_ref))"
    and "finite_double (round_double (ra + round_double
             (apparent_greenwich sid t_event - apparent_greenwich sid t_ref)))"
  shows "0 \<le> get_corrected_sky_position_double sid ra t_event t_ref
         \<and> get_corrected_sky_position_double sid ra t_event t_ref \<le> two_pi_double"
  unfolding get_corrected_sky_position_double_def Let_def
  by (rule py_mod_double_range)

text \<open>
  The right ascension \<open>1\<close> with the event at the reference time.
\<close>

theorem C3_corrected_ra_range_closed_witness:
  "finite_double (round_double
     (apparent_greenwich example_sidereal t_ref_default
        - apparent_greenwich example_sidereal t_ref_default))
   \<and> finite_double (round_double (1 + round_double
     (apparent_greenwich example_sidereal t_ref_default
        - apparent_greenwich example_sidereal t_ref_default)))
   \<and> 0 \<le> get_corrected_sky_position_double example_sidereal 1 t_ref_default t_ref_default
   \<and> get_corrected_sky_position_double example_sidereal 1 t_ref_default t_ref_default
       \<le> two_pi_double"
proof -
  have zero: "round_double
     (apparent_greenwich example_sidereal t_ref_default
        - apparent_greenwich example_sidereal t_ref_default) = 0"
    by (simp add: round_double_def)
  have f0: "finite_double (round_double
     (apparent_greenwich example_sidereal t_ref_default
        - apparent_greenwich example_sidereal t_ref_default))"
    unfolding zero by (simp add: finite_double_def max_double_def)
  have f1: "finite_double (round_double (1 + round_double
     (apparent_greenwich example_sidereal t_ref_default
        - apparent_greenwich example_sidereal t_ref_default)))"
    unfolding zero by (simp add: round_double_one finite_double_def max_double_def)
  from C3_corrected_ra_range_closed [OF f0 f1] f0 f1 show ?thesis by (intro conjI) simp_all
qed

text \<open>
  C3, as stated, fails: the interval is not half-open. For the right ascension
  \<^verbatim>\<open>-(2**-70)\<close> with the event at the reference time, the remainder of
  \<^verbatim>\<open>fmod\<close> is the tiny negative right ascension itself, and adding the divisor
  rounds to the divisor: the value returned is \<open>2 * np.pi\<close>.
\<close>

theorem C3_upper_end_reached:
  "get_corrected_sky_position_double example_sidereal (- (2 powi (- 70)))
     t_ref_default t_ref_default = two_pi_double
   \<and> \<not> (get_corrected_sky_position_double example_sidereal (- (2 powi (- 70)))
          t_ref_default t_ref_default < two_pi_double)"
proof -
  have small: "\<bar>- (2 powi (- 70))\<bar> < two_pi_double"
    by (simp add: two_pi_double_def pi_double_def)
  have "get_corrected_sky_position_double example_sidereal (- (2 powi (- 70)))
          t_ref_default t_ref_default = py_mod_double (- (2 powi (- 70))) two_pi_double"
    using small round_double_tiny by (rule example_run)
  also have "\<dots> = round_double (- (2 powi (- 70)) + two_pi_double)"
  proof -
    have r: "fmod (- (2 powi (- 70))) two_pi_double = - (2 powi (- 70))"
      using small by (rule fmod_small)
    have "\<not> two_pi_double < 0" using two_pi_double_pos by simp
    then show ?thesis unfolding py_mod_double_def r Let_def by simp
  qed
  also have "\<dots> = two_pi_double" by (rule round_double_below_two_pi)
  finally show ?thesis by simp
qed

subsection \<open>Errors and dictionaries\<close>

lemma bind_err_Inl [simp]: "bind_err (Inl e) f = Inl e"
  by (simp add: bind_err_def)

lemma bind_err_Inr [simp]: "bind_err (Inr v) f = f v"
  by (simp add: bind_err_def)

lemma bind_err_eq_Inr:
  "bind_err r f = Inr y \<longleftrightarrow> (\<exists>v. r = Inr v \<and> f v = Inr y)"
  by (cases r) simp_all

lemma map_of_setitem: "map_of (setitem d k v) = (map_of d)(k \<mapsto> v)"
  by (simp add: setitem_def update_conv')

subsection \<open>Claims on the settings parser\<close>

lemma domain_kind_example: "domain_kind (example_metadata kind) = Inr (PStr kind)"
  by (simp add: domain_kind_def example_metadata_def)

lemma training_data_example:
  "training_data (example_metadata kind) =
     Inr (PDict [(''window'', PDict [(''type'', PStr ''tukey''), (''T'', PNum 4), (''f_s'', PNum 4096)]),
                 (''detectors'', PList [PStr ''H1'', PStr ''L1''])])"
  by (simp add: training_data_def example_metadata_def)

text \<open>
  C8. For model metadata whose declared domain kind is the frequency-domain kind and
  whose training-data section holds a window (with entries \<open>T\<close> and \<open>f_s\<close>) and
  a detector list, the parser returns a flat settings dictionary: its window and its
  detector list are the ones of the training-data section, its sample rate is the
  window's \<open>f_s\<close>, its time segment is the window's \<open>T\<close>, and the two
  caller-supplied times are passed through.
\<close>

theorem C8_settings_from_metadata:
  assumes kind: "domain_kind model_metadata = Inr (PStr ''FrequencyDomain'')"
    and data: "training_data model_metadata = Inr data_settings"
    and win: "getitem data_settings ''window'' = Inr window"
    and dets: "getitem data_settings ''detectors'' = Inr detectors"
    and T: "getitem window ''T'' = Inr T"
    and f_s: "getitem window ''f_s'' = Inr f_s"
  shows "\<exists>settings.
           parse_settings_for_raw_data model_metadata time_psd time_buffer = Inr settings
           \<and> getitem settings ''window'' = Inr window
           \<and> getitem settings ''detectors'' = Inr detectors
           \<and> getitem settings ''f_s'' = Inr f_s
           \<and> getitem settings ''time_segment'' = Inr T
           \<and> getitem settings ''time_psd'' = Inr time_psd
           \<and> getitem settings ''time_buffer'' = Inr time_buffer"
proof -
  have "parse_settings_for_raw_data model_metadata time_psd time_buffer =
          Inr (PDict
            [(''window'', window), (''detectors'', detectors), (''time_segment'', T),
             (''time_psd'', time_psd), (''time_buffer'', time_buffer), (''f_s'', f_s)])"
    by (simp add: parse_settings_for_raw_data_def kind data win dets T f_s)
  then show ?thesis by simp
qed

text \<open>
  The parser run on the example metadata of kind \<open>FrequencyDomain\<close>.
\<close>

theorem C8_settings_from_metadata_witness:
  "\<exists>settings.
     parse_settings_for_raw_data (example_metadata ''FrequencyDomain'') (PNum 1024) (PNum 2)
       = Inr settings
     \<and> getitem settings ''window''
         = Inr (PDict [(''type'', PStr ''tukey''), (''T'', PNum 4), (''f_s'', PNum 4096)])
     \<and> getitem settings ''detectors'' = Inr (PList [PStr ''H1'', PStr ''L1''])
     \<and> getitem settings ''f_s'' = Inr (PNum 4096)
     \<and> getitem settings ''time_segment'' = Inr (PNum 4)
     \<and> getitem settings ''time_psd'' = Inr (PNum 1024)
     \<and> getitem settings ''time_buffer'' = Inr (PNum 2)"
  by (rule C8_settings_from_metadata
        [OF domain_kind_example training_data_example]) simp_all

subsection \<open>Claims on unsupported domain kinds\<close>

text \<open>
  C5. When the domain kind declared in the metadata is not the frequency-domain kind, the
  parser raises \<open>NotImplementedError\<close> naming that kind, and the orchestrator stops
  there with the world unchanged: nothing downloaded, nothing written to the cache. When
  the class of the domain object is not \<open>FrequencyDomain\<close>, the converter raises
  \<open>NotImplementedError\<close> naming that class and returns no output mapping.
\<close>

theorem C5_unsupported_domain_kind:
  "(domain_kind model_metadata = Inr kind \<and> kind \<noteq> PStr ''FrequencyDomain'' \<longrightarrow>
      parse_settings_for_raw_data model_metadata time_psd time_buffer
        = Inl (NotImplementedError ''Unknown domain type '' (FmtValue kind))
      \<and> get_domain_data c ext model_metadata time_event time_psd time_buffer event_dataset w
        = (Inl (NotImplementedError ''Unknown domain type '' (FmtValue kind)), w))
   \<and> (cls domain \<noteq> FrequencyDomain \<longrightarrow>
      data_to_domain ext raw settings_raw_data domain kwargs
        = Inl (NotImplementedError ''Unknown domain type '' (FmtType (cls domain))))"
proof (intro conjI impI)
  assume a: "domain_kind model_metadata = Inr kind \<and> kind \<noteq> PStr ''FrequencyDomain''"
  then show p: "parse_settings_for_raw_data model_metadata time_psd time_buffer
        = Inl (NotImplementedError ''Unknown domain type '' (FmtValue kind))"
    by (simp add: parse_settings_for_raw_data_def)
  show "get_domain_data c ext model_metadata time_event time_psd time_buffer event_dataset w
        = (Inl (NotImplementedError ''Unknown domain type '' (FmtValue kind)), w)"
    by (simp add: get_domain_data_def p)
next
  assume "cls domain \<noteq> FrequencyDomain"
  then show "data_to_domain ext raw settings_raw_data domain kwargs
        = Inl (NotImplementedError ''Unknown domain type '' (FmtType (cls domain)))"
    by (simp add: data_to_domain_def)
qed

text \<open>
  Both failures on the example inputs of kind \<open>TimeDomain\<close>.
\<close>

theorem C5_unsupported_domain_kind_witness:
  "domain_kind (example_metadata ''TimeDomain'') = Inr (PStr ''TimeDomain'')
   \<and> PStr ''TimeDomain'' \<noteq> PStr ''FrequencyDomain''
   \<and> parse_settings_for_raw_data (example_metadata ''TimeDomain'') (PNum 1024) (PNum 2)
       = Inl (NotImplementedError ''Unknown domain type '' (FmtValue (PStr ''TimeDomain'')))
   \<and> get_domain_data example_collaborators example_externals
        (example_metadata ''TimeDomain'') 1126259462.4 (PNum 1024) (PNum 2)
        (Some ''events.hdf5'') example_world
       = (Inl (NotImplementedError ''Unknown domain type '' (FmtValue (PStr ''TimeDomain''))),
          example_world)
   \<and> cls (example_domain ''TimeDomain'') \<noteq> FrequencyDomain
   \<and> data_to_domain example_externals example_raw_data example_settings
        (example_domain ''TimeDomain'') [(''window'', PStr ''tukey'')]
       = Inl (NotImplementedError ''Unknown domain type ''
               (FmtType (cls (example_domain ''TimeDomain''))))"
proof -
  have k: "domain_kind (example_metadata ''TimeDomain'') = Inr (PStr ''TimeDomain'')
           \<and> PStr ''TimeDomain'' \<noteq> PStr ''FrequencyDomain''"
    by (simp add: domain_kind_example)
  have d: "cls (example_domain ''TimeDomain'') \<noteq> FrequencyDomain"
    by (simp add: example_domain_def FrequencyDomain_def)
  note claim = C5_unsupported_domain_kind
    [where model_metadata = "example_metadata ''TimeDomain''" and kind = "PStr ''TimeDomain''"
       and time_psd = "PNum 1024" and time_buffer = "PNum 2"
       and c = example_collaborators and ext = example_externals
       and time_event = "1126259462.4" and event_dataset = "Some ''events.hdf5''"
       and w = example_world and domain = "example_domain ''TimeDomain''"
       and raw = example_raw_data and settings_raw_data = example_settings
       and kwargs = "[(''window'', PStr ''tukey'')]"]
  from claim [THEN conjunct1, rule_format, OF k] claim [THEN conjunct2, rule_format, OF d] k d
  show ?thesis by blast
qed

text \<open>
  C9. The converter compares the class of the domain object with \<open>FrequencyDomain\<close>
  for equality: a domain object of a strict subclass, although an instance of
  \<open>FrequencyDomain\<close>, is not converted and \<open>NotImplementedError\<close> is raised.
\<close>

theorem C9_exact_type_dispatch:
  assumes "cls domain \<noteq> FrequencyDomain" and "isinstance domain FrequencyDomain"
  shows "data_to_domain ext raw settings_raw_data domain kwargs
           = Inl (NotImplementedError ''Unknown domain type '' (FmtType (cls domain)))"
  using assms(1) by (simp add: data_to_domain_def)

text \<open>
  A domain object of a class derived from \<open>FrequencyDomain\<close>.
\<close>

theorem C9_exact_type_dispatch_witness:
  "cls (example_domain ''UniformFrequencyDomain'') \<noteq> FrequencyDomain
   \<and> isinstance (example_domain ''UniformFrequencyDomain'') FrequencyDomain
   \<and> data_to_domain example_externals example_raw_data example_settings
        (example_domain ''UniformFrequencyDomain'') [(''window'', PStr ''tukey'')]
       = Inl (NotImplementedError ''Unknown domain type '' (FmtType ''UniformFrequencyDomain''))"
proof -
  have c: "cls (example_domain ''UniformFrequencyDomain'') \<noteq> FrequencyDomain"
    by (simp add: example_domain_def FrequencyDomain_def)
  have i: "isinstance (example_domain ''UniformFrequencyDomain'') FrequencyDomain"
    by (simp add: example_domain_def isinstance_def)
  have n: "cls (example_domain ''UniformFrequencyDomain'') = ''UniformFrequencyDomain''"
    by (simp add: example_domain_def)
  from C9_exact_type_dispatch [OF c i, of example_externals example_raw_data
      example_settings "[(''window'', PStr ''tukey'')]"] c i n
  show ?thesis by simp
qed

subsection \<open>Claims on the loader\<close>

text \<open>
  C6. When a cache file is given and the lookup of the event in it, with the requested
  settings, returns data, the loader returns that data after printing one line: the
  files are as before and no call to the download collaborator is made.
\<close>

theorem C6_cache_hit_no_download:
  assumes "load_data_from_file c (files w) file (str_float c time_event) settings = Some data"
  shows "load_raw_data c time_event settings (Some file) w =
           (Inr data,
            print (''Data for event at '' @ str_float c time_event @ '' found in '' @ file @ ''.'') w)
         \<and> files (snd (load_raw_data c time_event settings (Some file) w)) = files w
         \<and> downloads (snd (load_raw_data c time_event settings (Some file) w)) = downloads w"
  using assms by (simp add: load_raw_data_def print_def)

text \<open>
  The loader on a cache that holds the event.
\<close>

theorem C6_cache_hit_no_download_witness:
  "load_data_from_file example_collaborators (files example_cached_world) ''events.hdf5''
     (str_float example_collaborators 1126259462.4) example_settings = Some example_raw_data
   \<and> fst (load_raw_data example_collaborators 1126259462.4 example_settings
             (Some ''events.hdf5'') example_cached_world) = Inr example_raw_data
   \<and> files (snd (load_raw_data example_collaborators 1126259462.4 example_settings
             (Some ''events.hdf5'') example_cached_world)) = files example_cached_world
   \<and> downloads (snd (load_raw_data example_collaborators 1126259462.4 example_settings
             (Some ''events.hdf5'') example_cached_world)) = []"
proof -
  have hit: "load_data_from_file example_collaborators (files example_cached_world)
               ''events.hdf5'' (str_float example_collaborators 1126259462.4) example_settings
             = Some example_raw_data"
    by (simp add: example_collaborators_def cache_collaborators_def example_cached_world_def
          load_data_from_file_spec_def entry_matches_def)
  have none: "downloads example_cached_world = []"
    by (simp add: example_cached_world_def)
  note claim = C6_cache_hit_no_download [OF hit]
  from claim have "fst (load_raw_data example_collaborators 1126259462.4 example_settings
             (Some ''events.hdf5'') example_cached_world) = Inr example_raw_data"
    by (simp only: fst_conv)
  moreover from claim have "files (snd (load_raw_data example_collaborators 1126259462.4
             example_settings (Some ''events.hdf5'') example_cached_world))
           = files example_cached_world"
    by (rule conjunct2 [THEN conjunct1])
  moreover from claim have "downloads (snd (load_raw_data example_collaborators 1126259462.4
             example_settings (Some ''events.hdf5'') example_cached_world)) = []"
    unfolding none [symmetric] by (rule conjunct2 [THEN conjunct2])
  ultimately show ?thesis using hit by (intro conjI)
qed

text \<open>
  In the cache of the specification, an entry saved after a miss is found by the next lookup.
\<close>

lemma find_snoc_new:
  "find P xs = None \<Longrightarrow> P x \<Longrightarrow> find P (xs @ [x]) = Some x"
  by (induction xs) (auto split: if_splits)

lemma lookup_after_save:
  assumes "load_data_from_file_spec fs file key settings = None"
  shows "load_data_from_file_spec
           (to_file_spec fs \<lparr>ds_event = key, ds_data = data, ds_settings = settings,
                             ds_data_keys = keys\<rparr> file mode)
           file key settings = Some data"
proof (cases "fs file")
  case None
  then show ?thesis
    by (simp add: load_data_from_file_spec_def to_file_spec_def entry_matches_def)
next
  case (Some entries)
  with assms have "find (entry_matches key settings) entries = None"
    by (simp add: load_data_from_file_spec_def)
  then have "find (entry_matches key settings)
               (entries @ [\<lparr>entry_key = key, entry_data = data, entry_settings = settings\<rparr>])
             = Some \<lparr>entry_key = key, entry_data = data, entry_settings = settings\<rparr>"
    by (rule find_snoc_new) (simp add: entry_matches_def)
  with Some show ?thesis
    by (simp add: load_data_from_file_spec_def to_file_spec_def)
qed

text \<open>
  C7. With the cache of the specification: when a call of the loader with a cache file
  returns data, a second call with the same event, settings and cache file returns the
  same data from the cache, makes no call to the download collaborator and leaves the
  files as they are; over both calls at most one download is made.
\<close>

theorem C7_second_call_served_from_cache:
  assumes first: "load_raw_data (cache_collaborators str download) time_event settings
                    (Some file) w = (Inr data, w1)"
  shows "\<exists>w2. load_raw_data (cache_collaborators str download) time_event settings
                 (Some file) w1 = (Inr data, w2)
              \<and> downloads w2 = downloads w1
              \<and> files w2 = files w1
              \<and> length (downloads w2) \<le> length (downloads w) + 1"
proof -
  let ?c = "cache_collaborators str download"
  let ?key = "str time_event"
  have hit: "load_data_from_file_spec (files w1) file ?key settings = Some data
             \<and> length (downloads w1) \<le> length (downloads w) + 1"
  proof (cases "load_data_from_file_spec (files w) file ?key settings")
    case (Some cached)
    with first have "data = cached" and "w1 = print (''Data for event at '' @ ?key @ '' found in '' @ file @ ''.'') w"
      by (simp_all add: load_raw_data_def cache_collaborators_def)
    with Some show ?thesis by (simp add: print_def)
  next
    case None
    with first have saved:
      "download_and_save ?c time_event settings (Some file) w = (Inr data, w1)"
      by (simp add: load_raw_data_def cache_collaborators_def)
    then obtain fresh where dl: "download time_event settings = Inr fresh"
      by (cases "download time_event settings")
         (simp_all add: download_and_save_def cache_collaborators_def Let_def)
    with saved have "fresh = data"
      and "files w1 = to_file_spec (files w)
             \<lparr>ds_event = ?key, ds_data = data, ds_settings = settings, ds_data_keys = [?key]\<rparr>
             file ''a''"
      and "downloads w1 = downloads w @ [(time_event, settings)]"
      by (auto simp: download_and_save_def cache_collaborators_def Let_def print_def)
    with lookup_after_save [OF None] show ?thesis by simp
  qed
  then have "load_raw_data ?c time_event settings (Some file) w1 =
               (Inr data, print (''Data for event at '' @ ?key @ '' found in '' @ file @ ''.'') w1)"
    by (simp add: load_raw_data_def cache_collaborators_def)
  with hit show ?thesis by (simp add: print_def)
qed

text \<open>
  Two calls of the loader, starting from an empty cache: one download.
\<close>

theorem C7_second_call_served_from_cache_witness:
  "\<exists>w1 w2.
     load_raw_data (cache_collaborators (\<lambda>t. ''1126259462.4'') (\<lambda>t settings. Inr example_raw_data))
       1126259462.4 example_settings (Some ''events.hdf5'') example_world
       = (Inr example_raw_data, w1)
     \<and> load_raw_data (cache_collaborators (\<lambda>t. ''1126259462.4'') (\<lambda>t settings. Inr example_raw_data))
       1126259462.4 example_settings (Some ''events.hdf5'') w1
       = (Inr example_raw_data, w2)
     \<and> downloads w1 = [(1126259462.4, example_settings)]
     \<and> downloads w2 = downloads w1
     \<and> files w2 = files w1"
proof -
  let ?c = "cache_collaborators (\<lambda>t. ''1126259462.4'') (\<lambda>t settings. Inr example_raw_data)"
  let ?r = "load_raw_data ?c 1126259462.4 example_settings (Some ''events.hdf5'') example_world"
  have fst: "fst ?r = Inr example_raw_data"
    by (simp add: load_raw_data_def download_and_save_def cache_collaborators_def
          example_world_def load_data_from_file_spec_def Let_def)
  have dl: "downloads (snd ?r) = [(1126259462.4, example_settings)]"
    by (simp add: load_raw_data_def download_and_save_def cache_collaborators_def
          example_world_def load_data_from_file_spec_def Let_def print_def)
  from fst have first: "?r = (Inr example_raw_data, snd ?r)"
    by (simp add: prod_eq_iff)
  from C7_second_call_served_from_cache [OF first] dl first show ?thesis by blast
qed

subsection \<open>Claims on the converter\<close>

text \<open>
  The second loop stores, for every detector of the PSD section, the converted PSD.
\<close>

lemma convert_psds_other:
  "det \<notin> fst ` set items \<Longrightarrow> map_of (convert_psds d items acc) det = map_of acc det"
  by (induction items arbitrary: acc) (auto simp: map_of_setitem)

lemma convert_psds_lookup:
  "distinct (map fst items) \<Longrightarrow> map_of items det = Some p \<Longrightarrow>
   map_of (convert_psds d items acc) det = Some (psd_to_asd d p)"
proof (induction items arbitrary: acc)
  case Nil
  then show ?case by simp
next
  case (Cons item rest)
  obtain k q where item: "item = (k, q)" by (cases item)
  show ?case
  proof (cases "k = det")
    case True
    with Cons.prems item have "q = p" and "det \<notin> fst ` set rest" by auto
    then show ?thesis
      using item True by (simp add: convert_psds_other map_of_setitem)
  next
    case False
    with Cons.prems item have "distinct (map fst rest)" and "map_of rest det = Some p"
      by auto
    then show ?thesis using item Cons.IH by simp
  qed
qed

lemma data_to_domain_Inr:
  assumes "data_to_domain ext raw s d kwargs = Inr out"
  shows "cls d = FrequencyDomain" and "asds out = convert_psds d (psd raw) []"
  using assms
  by (auto simp: data_to_domain_def bind_err_eq_Inr Let_def split: if_splits)

lemma length_native_layout: "length (native_layout n xs) = n"
  by (simp add: native_layout_def)

lemma nth_native_layout: "i < n \<Longrightarrow> i < length xs \<Longrightarrow> native_layout n xs ! i = xs ! i"
  by (simp add: native_layout_def nth_append)

lemma example_conversion:
  "data_to_domain example_externals example_raw_data example_settings d
     [(''window'', PStr ''tukey''), (''low_value'', PNum 5)]
   = (if cls d = FrequencyDomain
      then Inr \<lparr>waveform = [(''H1'', update_data d (ComplexArray [3, 5]) None)],
                asds = [(''H1'', update_data d (RealArray [0, 2]) (Some 1))]\<rparr>
      else Inl (NotImplementedError ''Unknown domain type '' (FmtType (cls d))))"
  by (simp add: data_to_domain_def strain_to_domain_def example_externals_def
        example_raw_data_def example_settings_def setitem_def psd_to_asd_def)

text \<open>
  C10. In every conversion that returns, the ASD of a detector is the result of the domain
  object's \<open>update_data\<close> called on the square roots of the PSD with
  \<open>low_value\<close> equal to \<open>1\<close>, whatever the method, the settings and the keyword
  arguments are.
\<close>

theorem C10_asd_low_value_is_one:
  assumes run: "data_to_domain ext raw settings_raw_data domain kwargs = Inr out"
    and keys: "distinct (map fst (psd raw))"
    and item: "map_of (psd raw) det = Some p"
  shows "map_of (asds out) det = Some (update_data domain (RealArray (map sqrt p)) (Some 1))"
proof -
  have "asds out = convert_psds domain (psd raw) []"
    using run by (rule data_to_domain_Inr(2))
  then have "map_of (asds out) det = Some (psd_to_asd domain p)"
    using keys item by (simp add: convert_psds_lookup)
  then show ?thesis by (simp add: psd_to_asd_def)
qed

text \<open>
  A domain object whose method returns the \<open>low_value\<close> it receives, with other
  values under the name \<open>low_value\<close> in the settings and the keyword arguments.
\<close>

theorem C10_asd_low_value_is_one_witness:
  "\<exists>out.
     data_to_domain example_externals example_raw_data example_settings recording_domain
       [(''window'', PStr ''tukey''), (''low_value'', PNum 5)] = Inr out
     \<and> distinct (map fst (psd example_raw_data))
     \<and> map_of (psd example_raw_data) ''H1'' = Some [0, 4]
     \<and> map_of (asds out) ''H1'' = Some (RealArray [1])"
proof -
  let ?out = "\<lparr>waveform = [(''H1'', RealArray [])], asds = [(''H1'', RealArray [1])]\<rparr>"
  have run: "data_to_domain example_externals example_raw_data example_settings recording_domain
       [(''window'', PStr ''tukey''), (''low_value'', PNum 5)] = Inr ?out"
    by (simp add: example_conversion) (simp add: recording_domain_def)
  have keys: "distinct (map fst (psd example_raw_data))"
    by (simp add: example_raw_data_def)
  have item: "map_of (psd example_raw_data) ''H1'' = Some [0, 4]"
    by (simp add: example_raw_data_def)
  have "map_of (asds ?out) ''H1'' = Some (RealArray [1])"
    using C10_asd_low_value_is_one [OF run keys item] by (simp add: recording_domain_def)
  with run keys item show ?thesis by blast
qed

text \<open>
  C1. With the \<open>update_data\<close> of the specification, in every conversion that returns,
  the ASD of a detector has the domain's bin count, and each entry kept by the layout, for
  a non-negative PSD entry, is the square root of the PSD entry with a floor at the
  minimum \<open>1\<close>: exactly \<open>1\<close> when the square root is below \<open>1\<close>, and the
  square root otherwise.
\<close>

theorem C1_asd_sqrt_with_floor:
  assumes run: "data_to_domain ext raw settings_raw_data domain kwargs = Inr out"
    and spec_upd: "update_data domain = update_data_spec n"
    and keys: "distinct (map fst (psd raw))"
    and item: "map_of (psd raw) det = Some p"
    and kept: "i < n" "i < length p"
    and nonneg: "0 \<le> p ! i"
  shows "\<exists>asd. map_of (asds out) det = Some (RealArray asd)
           \<and> length asd = n
           \<and> asd ! i = floor_clamp 1 (sqrt (p ! i))
           \<and> (sqrt (p ! i) < 1 \<longrightarrow> asd ! i = 1)
           \<and> (1 \<le> sqrt (p ! i) \<longrightarrow> asd ! i = sqrt (p ! i))"
proof -
  let ?asd = "map (floor_clamp 1) (native_layout n (map sqrt p))"
  have "asds out = convert_psds domain (psd raw) []"
    using run by (rule data_to_domain_Inr(2))
  then have "map_of (asds out) det = Some (psd_to_asd domain p)"
    using keys item by (simp add: convert_psds_lookup)
  then have found: "map_of (asds out) det = Some (RealArray ?asd)"
    by (simp add: psd_to_asd_def spec_upd)
  have len: "length ?asd = n"
    by (simp add: length_native_layout)
  have "?asd ! i = floor_clamp 1 (native_layout n (map sqrt p) ! i)"
    using kept(1) by (simp add: length_native_layout)
  also have "native_layout n (map sqrt p) ! i = sqrt (p ! i)"
    using kept by (simp add: nth_native_layout)
  finally have entry: "?asd ! i = floor_clamp 1 (sqrt (p ! i))" .
  from found len entry show ?thesis
    by (auto simp: floor_clamp_def)
qed

text \<open>
  A PSD with an entry whose square root is below the minimum.
\<close>

theorem C1_asd_sqrt_with_floor_witness:
  "\<exists>out asd.
     data_to_domain example_externals example_raw_data example_settings
       (frequency_domain_object 2) [(''window'', PStr ''tukey''), (''low_value'', PNum 5)] = Inr out
     \<and> update_data (frequency_domain_object 2) = update_data_spec 2
     \<and> map_of (psd example_raw_data) ''H1'' = Some [0, 4]
     \<and> map_of (asds out) ''H1'' = Some (RealArray asd)
     \<and> sqrt ([0, 4] ! 0) < 1
     \<and> asd ! 0 = 1
     \<and> asd = [1, 2]"
proof -
  let ?out = "\<lparr>waveform = [(''H1'', ComplexArray [3, 5])], asds = [(''H1'', RealArray [1, 2])]\<rparr>"
  have run: "data_to_domain example_externals example_raw_data example_settings
       (frequency_domain_object 2) [(''window'', PStr ''tukey''), (''low_value'', PNum 5)] = Inr ?out"
    by (simp add: example_conversion)
       (simp add: frequency_domain_object_def native_layout_def floor_clamp_def)
  have spec_upd: "update_data (frequency_domain_object 2) = update_data_spec 2"
    by (simp add: frequency_domain_object_def)
  have keys: "distinct (map fst (psd example_raw_data))"
    by (simp add: example_raw_data_def)
  have item: "map_of (psd example_raw_data) ''H1'' = Some [0, 4]"
    by (simp add: example_raw_data_def)
  have small: "sqrt ([0, 4::real] ! 0) < 1" by simp
  from C1_asd_sqrt_with_floor [OF run spec_upd keys item, of 0]
  have "\<exists>asd. map_of (asds ?out) ''H1'' = Some (RealArray asd) \<and> length asd = 2
          \<and> asd ! 0 = floor_clamp 1 (sqrt ([0, 4] ! 0))
          \<and> (sqrt ([0, 4] ! 0) < 1 \<longrightarrow> asd ! 0 = 1)
          \<and> (1 \<le> sqrt ([0, 4] ! 0) \<longrightarrow> asd ! 0 = sqrt ([0, 4] ! 0))"
    by simp
  with run spec_upd item small show ?thesis by auto
qed

end
